theory Spec2Isabelle
  imports Complex_Main "HOL-Library.Multiset"
begin

section \<open>Numbers and property reads\<close>

text \<open>
  The calorie tracker is TypeScript. Its \<open>number\<close> values and the \<open>Float\<close> columns of
  the Prisma schema are modelled as exact rationals: the rounding error of IEEE doubles
  is not part of this development. \<open>Int\<close> columns are \<open>int\<close>. Where an arithmetic
  operator of the source receives an operand that is not a number, the result is the
  value \<open>NaN\<close> of the type \<open>number\<close> below.
\<close>

datatype number = Num rat | NaN

text \<open>\<open>Math.round\<close>: the nearest integer, a tie going up.\<close>

definition Math_round :: "rat \<Rightarrow> int" where
  "Math_round x = \<lfloor>x + 1 / 2\<rfloor>"

text \<open>
  The lookup tables of \<open>lib/tdee.ts\<close> are object literals, read with \<open>table[key]\<close> for
  a key that is any string. Such a read finds the literal's own entries first and then
  the members every object literal inherits from \<open>Object.prototype\<close>, which are
  functions (and, for \<open>__proto__\<close>, an object): truthy values that are not numbers.
  A key found in neither place reads as \<open>undefined\<close>.
\<close>

datatype entry = Undefined | Own rat | Inherited

definition object_prototype_keys :: "string list" where
  "object_prototype_keys =
     [''constructor'', ''__defineGetter__'', ''__defineSetter__'', ''hasOwnProperty'',
      ''__lookupGetter__'', ''__lookupSetter__'', ''isPrototypeOf'',
      ''propertyIsEnumerable'', ''toString'', ''valueOf'', ''__proto__'',
      ''toLocaleString'']"

definition read_prop :: "(string \<times> rat) list \<Rightarrow> string \<Rightarrow> entry" where
  "read_prop obj key =
     (case map_of obj key of
        Some v \<Rightarrow> Own v
      | None \<Rightarrow> if key \<in> set object_prototype_keys then Inherited else Undefined)"

text \<open>\<open>p || d\<close> for a numeric default \<open>d\<close>: \<open>undefined\<close> and \<open>0\<close> are falsy.\<close>

fun or_default :: "entry \<Rightarrow> rat \<Rightarrow> entry" where
  "or_default Undefined d = Own d"
| "or_default (Own v) d = (if v = 0 then Own d else Own v)"
| "or_default Inherited d = Inherited"

section \<open>TDEE calculator (\<open>lib/tdee.ts\<close>)\<close>

definition calculateBMR :: "rat \<Rightarrow> rat \<Rightarrow> rat \<Rightarrow> string \<Rightarrow> rat" where
  "calculateBMR weight height age gender =
     (if gender = ''male''
      then 10 * weight + 625 / 100 * height - 5 * age + 5
      else 10 * weight + 625 / 100 * height - 5 * age - 161)"

definition multipliers :: "(string \<times> rat) list" where
  "multipliers =
     [(''sedentary'', 12 / 10), (''light'', 1375 / 1000), (''moderate'', 155 / 100),
      (''active'', 1725 / 1000), (''very_active'', 19 / 10)]"

text \<open>
  \<open>Math.round(bmr * (multipliers[activityLevel] || 1.375))\<close>. A number times a function
  is \<open>NaN\<close>, and \<open>Math.round(NaN)\<close> is \<open>NaN\<close>.
\<close>

definition calculateTDEE :: "rat \<Rightarrow> string \<Rightarrow> number" where
  "calculateTDEE bmr activityLevel =
     (case or_default (read_prop multipliers activityLevel) (1375 / 1000) of
        Own m \<Rightarrow> Num (of_int (Math_round (bmr * m)))
      | _ \<Rightarrow> NaN)"

definition adjustments :: "(string \<times> rat) list" where
  "adjustments = [(''lose'', - 500), (''gain'', 500), (''maintain'', 0)]"

text \<open>
  \<open>Math.round(tdee + (adjustments[goal] || 0))\<close>. A number plus a function is a string
  (the concatenation of both printed), which \<open>Math.round\<close> turns into \<open>NaN\<close>.
\<close>

definition calculateTargetCalories :: "rat \<Rightarrow> string \<Rightarrow> number" where
  "calculateTargetCalories tdee goal =
     (case or_default (read_prop adjustments goal) 0 of
        Own a \<Rightarrow> Num (of_int (Math_round (tdee + a)))
      | _ \<Rightarrow> NaN)"

section \<open>JSON values and the schemas of the analysis route\<close>

text \<open>
  A parsed JSON document. An object keeps its members in document order; a read of a
  member takes the last one of that name, as \<open>JSON.parse\<close> does.
\<close>

datatype json =
    JNull
  | JBool bool
  | JNum rat
  | JStr string
  | JArr "json list"
  | JObj "(string \<times> json) list"

definition get_member :: "(string \<times> json) list \<Rightarrow> string \<Rightarrow> json option" where
  "get_member kvs key = map_of (rev kvs) key"

text \<open>
  The field validators of zod. \<open>None\<close> is a validation error; for an optional field the
  inner option says whether the member is there.
\<close>

fun z_number :: "json option \<Rightarrow> rat option" where
  "z_number (Some (JNum x)) = Some x"
| "z_number _ = None"

fun z_number_optional :: "json option \<Rightarrow> rat option option" where
  "z_number_optional None = Some None"
| "z_number_optional (Some (JNum x)) = Some (Some x)"
| "z_number_optional _ = None"

fun z_string_min1 :: "json option \<Rightarrow> string option" where
  "z_string_min1 (Some (JStr s)) = (if length s \<ge> 1 then Some s else None)"
| "z_string_min1 _ = None"

fun z_string_optional :: "json option \<Rightarrow> string option option" where
  "z_string_optional None = Some None"
| "z_string_optional (Some (JStr s)) = Some (Some s)"
| "z_string_optional _ = None"

fun z_enum :: "string list \<Rightarrow> json option \<Rightarrow> string option" where
  "z_enum vs (Some (JStr s)) = (if s \<in> set vs then Some s else None)"
| "z_enum vs _ = None"

record analyzeRequest =
  req_description :: string
  req_quantity :: "string option"

fun analyzeRequestSchema_parse :: "json \<Rightarrow> analyzeRequest option" where
  "analyzeRequestSchema_parse (JObj kvs) =
     (case z_string_min1 (get_member kvs ''description'') of
        None \<Rightarrow> None
      | Some d \<Rightarrow>
          (case z_string_optional (get_member kvs ''quantity'') of
             None \<Rightarrow> None
           | Some q \<Rightarrow> Some \<lparr>req_description = d, req_quantity = q\<rparr>))"
| "analyzeRequestSchema_parse _ = None"

record nutrition =
  n_calories :: rat
  n_protein :: rat
  n_carbs :: rat
  n_fats :: rat
  n_fiber :: "rat option"
  n_sugar :: "rat option"
  n_sodium :: "rat option"
  n_confidence :: string
  n_notes :: "string option"

fun nutritionResponseSchema_parse :: "json \<Rightarrow> nutrition option" where
  "nutritionResponseSchema_parse (JObj kvs) =
     (case (z_number (get_member kvs ''calories''), z_number (get_member kvs ''protein''),
            z_number (get_member kvs ''carbs''), z_number (get_member kvs ''fats'')) of
        (Some c, Some p, Some cb, Some f) \<Rightarrow>
          (case (z_number_optional (get_member kvs ''fiber''),
                 z_number_optional (get_member kvs ''sugar''),
                 z_number_optional (get_member kvs ''sodium'')) of
             (Some fi, Some su, Some so) \<Rightarrow>
               (case (z_enum [''high'', ''medium'', ''low''] (get_member kvs ''confidence''),
                      z_string_optional (get_member kvs ''notes'')) of
                  (Some cf, Some nt) \<Rightarrow>
                    Some \<lparr>n_calories = c, n_protein = p, n_carbs = cb, n_fats = f,
                          n_fiber = fi, n_sugar = su, n_sodium = so,
                          n_confidence = cf, n_notes = nt\<rparr>
                | _ \<Rightarrow> None)
           | _ \<Rightarrow> None)
      | _ \<Rightarrow> None)"
| "nutritionResponseSchema_parse _ = None"

section \<open>The relational store (\<open>prisma/schema.prisma\<close>)\<close>

text \<open>
  A \<open>DateTime\<close> is an instant in milliseconds since the epoch. The server's time zone is
  a fixed offset \<open>tz\<close> from UTC, in milliseconds and positive east of Greenwich, so the
  local wall clock at the instant \<open>t\<close> reads \<open>t + tz\<close>; daylight-saving changes are left
  out. \<open>setHours(0, 0, 0, 0)\<close> moves an instant to the start of its local day and
  \<open>setHours(23, 59, 59, 999)\<close> to the last millisecond of that day. The records keep the
  columns the routes read or write; identifiers and creation times are left out.
\<close>

definition msPerDay :: int where
  "msPerDay = 86400000"

definition startOfDay :: "int \<Rightarrow> int \<Rightarrow> int" where
  "startOfDay tz t = t - (t + tz) mod msPerDay"

definition endOfDay :: "int \<Rightarrow> int \<Rightarrow> int" where
  "endOfDay tz t = startOfDay tz t + (msPerDay - 1)"

text \<open>
  \<open>new Date(string)\<close> for a string that parses. A date without a time
  (\<open>YYYY-MM-DD\<close>, given here as the number of the day since the epoch) is read as
  midnight UTC of that date. A date with a time and no zone, given as the wall-clock
  reading in milliseconds, is read as local time. A date with a time and a zone is an
  instant.
\<close>

datatype date_string = DateOnly int | LocalDateTime int | Instant int

fun Date_parse :: "int \<Rightarrow> date_string \<Rightarrow> int" where
  "Date_parse tz (DateOnly n) = n * msPerDay"
| "Date_parse tz (LocalDateTime x) = x - tz"
| "Date_parse tz (Instant t) = t"

record user =
  user_id :: string
  goal :: string
  activityLevel :: "string option"
  targetCalories :: "int option"

record meal =
  userId :: string
  description :: string
  mealType :: string
  timestamp :: int
  calories :: rat
  protein :: rat
  carbs :: rat
  fats :: rat
  fiber :: "rat option"
  sugar :: "rat option"
  sodium :: "rat option"

record dailySummary =
  summary_userId :: string
  date :: int
  totalCalories :: rat
  totalProtein :: rat
  totalCarbs :: rat
  totalFats :: rat
  goalCalories :: int

record store =
  users :: "user list"
  meals :: "meal list"
  dailySummaries :: "dailySummary list"

definition user_findUnique :: "store \<Rightarrow> string \<Rightarrow> user option" where
  "user_findUnique db uid = find (\<lambda>u. user_id u = uid) (users db)"

definition dailySummary_findUnique :: "store \<Rightarrow> string \<Rightarrow> int \<Rightarrow> dailySummary option" where
  "dailySummary_findUnique db uid d =
     find (\<lambda>s. summary_userId s = uid \<and> date s = d) (dailySummaries db)"

definition meal_create :: "store \<Rightarrow> meal \<Rightarrow> store" where
  "meal_create db m = db\<lparr>meals := meals db @ [m]\<rparr>"

text \<open>
  \<open>upsert\<close> on the unique key \<open>(userId, date)\<close>: the row with that key is updated, or
  the given row is inserted when there is none. The row written is returned.
\<close>

definition dailySummary_upsert ::
  "store \<Rightarrow> string \<Rightarrow> int \<Rightarrow> (dailySummary \<Rightarrow> dailySummary) \<Rightarrow> dailySummary
     \<Rightarrow> dailySummary \<times> store"
where
  "dailySummary_upsert db uid d update create =
     (case dailySummary_findUnique db uid d of
        None \<Rightarrow> (create, db\<lparr>dailySummaries := dailySummaries db @ [create]\<rparr>)
      | Some s \<Rightarrow>
          (update s,
           db\<lparr>dailySummaries :=
                map (\<lambda>x. if summary_userId x = uid \<and> date x = d then update x else x)
                  (dailySummaries db)\<rparr>))"

text \<open>\<open>findMany\<close> with \<open>orderBy: { timestamp: 'desc' }\<close> and with \<open>'asc'\<close>.\<close>

definition meal_findMany_desc :: "store \<Rightarrow> (meal \<Rightarrow> bool) \<Rightarrow> meal list" where
  "meal_findMany_desc db wh = sort_key (\<lambda>m. - timestamp m) (filter wh (meals db))"

definition meal_findMany_asc :: "store \<Rightarrow> (meal \<Rightarrow> bool) \<Rightarrow> meal list" where
  "meal_findMany_asc db wh = sort_key timestamp (filter wh (meals db))"

definition dailySummary_findMany_asc :: "store \<Rightarrow> (dailySummary \<Rightarrow> bool) \<Rightarrow> dailySummary list" where
  "dailySummary_findMany_asc db wh = sort_key date (filter wh (dailySummaries db))"

text \<open>
  The session of the authentication collaborator: \<open>session?.user?.id\<close>, absent or the
  empty string when the request is not authenticated.
\<close>

fun session_user_id :: "string option \<Rightarrow> string option" where
  "session_user_id None = None"
| "session_user_id (Some uid) = (if uid = [] then None else Some uid)"

text \<open>\<open>user?.targetCalories || 2000\<close>: no user, no target and the target 0 are falsy.\<close>

fun targetCalories_or_2000 :: "user option \<Rightarrow> int" where
  "targetCalories_or_2000 None = 2000"
| "targetCalories_or_2000 (Some u) =
     (case targetCalories u of None \<Rightarrow> 2000 | Some t \<Rightarrow> if t = 0 then 2000 else t)"

section \<open>The text-generation provider\<close>

text \<open>
  A request to \<open>openai.chat.completions.create\<close> carries the model, the temperature and
  the data the route puts into its prompt template; the fixed wording of the templates
  is left out. The call either throws (network failure, timeout, rate limit) or returns
  the choices, each with a message content that may be \<open>null\<close>.
\<close>

datatype prompt =
    AnalyzePrompt string "string option"
  | InsightsPrompt string int string "dailySummary list"

record chat_request =
  chat_model :: string
  chat_prompt :: prompt
  chat_temperature :: rat

datatype completion = Throws | Choices "string option list"

datatype 'a response = Json 'a | Failure nat string

section \<open>Food analysis route (\<open>app/api/nutrition/analyze/route.ts\<close>)\<close>

text \<open>
  \<open>POST\<close>. The body is \<open>None\<close> when \<open>req.json()\<close> throws. \<open>JSON_parse\<close> is the
  platform's parser, \<open>None\<close> when it throws a syntax error. Every exception inside the
  \<open>try\<close> block lands in the one \<open>catch\<close>, which answers with status 500.
\<close>

definition analyze_failed :: "nutrition response" where
  "analyze_failed = Failure 500 ''Failed to analyze food''"

definition analyze_request :: "analyzeRequest \<Rightarrow> chat_request" where
  "analyze_request r =
     \<lparr>chat_model = ''gpt-4o-mini'',
      chat_prompt = AnalyzePrompt (req_description r)
        (case req_quantity r of None \<Rightarrow> None | Some q \<Rightarrow> if q = [] then None else Some q),
      chat_temperature = 3 / 10\<rparr>"

definition analyze_POST ::
  "(string \<Rightarrow> json option) \<Rightarrow> (chat_request \<Rightarrow> completion) \<Rightarrow> json option \<Rightarrow> nutrition response"
where
  "analyze_POST JSON_parse openai body =
     (case body of
        None \<Rightarrow> analyze_failed
      | Some b \<Rightarrow>
          (case analyzeRequestSchema_parse b of
             None \<Rightarrow> analyze_failed
           | Some r \<Rightarrow>
               (case openai (analyze_request r) of
                  Throws \<Rightarrow> analyze_failed
                | Choices [] \<Rightarrow> analyze_failed
                | Choices (None # _) \<Rightarrow> analyze_failed
                | Choices (Some responseText # _) \<Rightarrow>
                    if responseText = [] then analyze_failed
                    else (case JSON_parse responseText of
                            None \<Rightarrow> analyze_failed
                          | Some j \<Rightarrow>
                              (case nutritionResponseSchema_parse j of
                                 None \<Rightarrow> analyze_failed
                               | Some n \<Rightarrow> Json n)))))"

text \<open>
  The outcome of an estimate in the words of the specification: \<open>Upstream\<close> when the
  external call errors or times out, \<open>Malformed\<close> when the reply is not valid JSON or
  fails schema validation (an absent or empty reply counted as not valid JSON), and a
  validation error for a request that is rejected before any external call.
\<close>

datatype estimation = Estimate nutrition | Upstream | Malformed | ValidationError

definition estimate_spec ::
  "(string \<Rightarrow> json option) \<Rightarrow> (chat_request \<Rightarrow> completion) \<Rightarrow> json option \<Rightarrow> estimation"
where
  "estimate_spec JSON_parse openai body =
     (case Option.bind body analyzeRequestSchema_parse of
        None \<Rightarrow> ValidationError
      | Some r \<Rightarrow>
          (case openai (analyze_request r) of
             Throws \<Rightarrow> Upstream
           | Choices cs \<Rightarrow>
               (case Option.bind (Option.bind (Option.bind (case cs of [] \<Rightarrow> None | c # _ \<Rightarrow> c)
                        (\<lambda>t. if t = [] then None else Some t)) JSON_parse)
                      nutritionResponseSchema_parse of
                  None \<Rightarrow> Malformed
                | Some n \<Rightarrow> Estimate n)))"

section \<open>Meal logging route (\<open>app/api/meals/route.ts\<close>)\<close>

text \<open>
  The body of a create request after \<open>createMealSchema.parse\<close>, the timestamp already
  an instant; the handler receives \<open>None\<close> when \<open>req.json()\<close> or the schema throws.
\<close>

record createMeal =
  data_description :: string
  data_mealType :: string
  data_timestamp :: "int option"
  data_calories :: rat
  data_protein :: rat
  data_carbs :: rat
  data_fats :: rat
  data_fiber :: "rat option"
  data_sugar :: "rat option"
  data_sodium :: "rat option"

text \<open>
  A store call can throw. The three calls of \<open>POST\<close> each have a flag that says whether
  the call throws in this run; the two reads of the clock (\<open>new Date()\<close> for a meal
  without timestamp, then \<open>new Date()\<close> for today) are two instants.
\<close>

record faults =
  meal_create_throws :: bool
  user_findUnique_throws :: bool
  dailySummary_upsert_throws :: bool

definition no_faults :: faults where
  "no_faults = \<lparr>meal_create_throws = False, user_findUnique_throws = False,
                 dailySummary_upsert_throws = False\<rparr>"

definition create_failed :: "(meal \<times> dailySummary) response" where
  "create_failed = Failure 500 ''Failed to create meal''"

definition new_meal :: "string \<Rightarrow> int \<Rightarrow> createMeal \<Rightarrow> meal" where
  "new_meal uid now data =
     \<lparr>userId = uid, description = data_description data, mealType = data_mealType data,
      timestamp = (case data_timestamp data of Some t \<Rightarrow> t | None \<Rightarrow> now),
      calories = data_calories data, protein = data_protein data,
      carbs = data_carbs data, fats = data_fats data, fiber = data_fiber data,
      sugar = data_sugar data, sodium = data_sodium data\<rparr>"

definition increment_totals :: "createMeal \<Rightarrow> dailySummary \<Rightarrow> dailySummary" where
  "increment_totals data s =
     s\<lparr>totalCalories := totalCalories s + data_calories data,
       totalProtein := totalProtein s + data_protein data,
       totalCarbs := totalCarbs s + data_carbs data,
       totalFats := totalFats s + data_fats data\<rparr>"

definition meals_POST ::
  "int \<Rightarrow> faults \<Rightarrow> int \<Rightarrow> int \<Rightarrow> string option \<Rightarrow> createMeal option \<Rightarrow> store
     \<Rightarrow> (meal \<times> dailySummary) response \<times> store"
where
  "meals_POST tz flt now1 now2 session body db =
     (case session_user_id session of
        None \<Rightarrow> (Failure 401 ''Unauthorized'', db)
      | Some uid \<Rightarrow>
          (case body of
             None \<Rightarrow> (create_failed, db)
           | Some data \<Rightarrow>
               if meal_create_throws flt then (create_failed, db)
               else
                 let meal = new_meal uid now1 data;
                     db1 = meal_create db meal;
                     today = startOfDay tz now2
                 in if user_findUnique_throws flt then (create_failed, db1)
                    else
                      let goalCal = targetCalories_or_2000 (user_findUnique db1 uid)
                      in if dailySummary_upsert_throws flt then (create_failed, db1)
                         else
                           let (dailySummary, db2) =
                                 dailySummary_upsert db1 uid today (increment_totals data)
                                   \<lparr>summary_userId = uid, date = today,
                                    totalCalories = data_calories data,
                                    totalProtein = data_protein data,
                                    totalCarbs = data_carbs data,
                                    totalFats = data_fats data,
                                    goalCalories = goalCal\<rparr>
                           in (Json (meal, dailySummary), db2)))"

text \<open>
  \<open>GET\<close>. The query parameter \<open>date\<close> is absent (or empty), or a string that
  \<open>new Date\<close> cannot read, which the store rejects, or a string that parses.
  The parameter \<open>mealType\<close> is a string, not used when absent or empty.
\<close>

datatype date_param = NoDate | InvalidDate | ValidDate date_string

definition meals_where :: "string \<Rightarrow> (int \<times> int) option \<Rightarrow> string option \<Rightarrow> meal \<Rightarrow> bool" where
  "meals_where uid window mt m =
     (userId m = uid
      \<and> (case window of None \<Rightarrow> True | Some (startDate, endDate) \<Rightarrow> startDate \<le> timestamp m \<and> timestamp m \<le> endDate)
      \<and> (case mt of None \<Rightarrow> True | Some t \<Rightarrow> mealType m = t))"

definition meals_GET :: "int \<Rightarrow> string option \<Rightarrow> date_param \<Rightarrow> string option \<Rightarrow> store \<Rightarrow> meal list response" where
  "meals_GET tz session date_q mealType_q db =
     (case session_user_id session of
        None \<Rightarrow> Failure 401 ''Unauthorized''
      | Some uid \<Rightarrow>
          let mt = (case mealType_q of None \<Rightarrow> None | Some t \<Rightarrow> if t = [] then None else Some t)
          in (case date_q of
                InvalidDate \<Rightarrow> Failure 500 ''Failed to fetch meals''
              | NoDate \<Rightarrow> Json (meal_findMany_desc db (meals_where uid None mt))
              | ValidDate ds \<Rightarrow>
                  let startDate = startOfDay tz (Date_parse tz ds);
                      endDate = endOfDay tz (Date_parse tz ds)
                  in Json (meal_findMany_desc db
                             (meals_where uid (Some (startDate, endDate)) mt))))"

section \<open>Daily summary route (\<open>app/api/nutrition/daily/route.ts\<close>)\<close>



section \<open>Insights route (\<open>app/api/nutrition/insights/route.ts\<close>)\<close>

text \<open>
  \<open>GET\<close> answers either with the message that there is not enough data and an empty
  list of insights, or with the JSON document the provider wrote. The second component
  of the result lists the requests sent to the provider while handling the call.
\<close>

datatype insights = NotEnoughData string "json list" | Generated json

definition insights_failed :: "insights response" where
  "insights_failed = Failure 500 ''Failed to generate insights''"

definition insights_request :: "user option \<Rightarrow> dailySummary list \<Rightarrow> chat_request" where
  "insights_request user summaries =
     \<lparr>chat_model = ''gpt-4o-mini'',
      chat_prompt = InsightsPrompt
        (case user of None \<Rightarrow> ''maintain'' | Some u \<Rightarrow> if goal u = [] then ''maintain'' else goal u)
        (targetCalories_or_2000 user)
        (case Option.bind user activityLevel of
           None \<Rightarrow> ''moderate''
         | Some a \<Rightarrow> if a = [] then ''moderate'' else a)
        summaries,
      chat_temperature = 7 / 10\<rparr>"

definition insights_GET ::
  "int \<Rightarrow> (string \<Rightarrow> json option) \<Rightarrow> (chat_request \<Rightarrow> completion) \<Rightarrow> int \<Rightarrow> string option
     \<Rightarrow> store \<Rightarrow> insights response \<times> chat_request list"
where
  "insights_GET tz JSON_parse openai now session db =
     (case session_user_id session of
        None \<Rightarrow> (Failure 401 ''Unauthorized'', [])
      | Some uid \<Rightarrow>
          let sevenDaysAgo = startOfDay tz (now - 7 * msPerDay);
              ms = meal_findMany_asc db (\<lambda>m. userId m = uid \<and> sevenDaysAgo \<le> timestamp m);
              summaries = dailySummary_findMany_asc db
                            (\<lambda>s. summary_userId s = uid \<and> sevenDaysAgo \<le> date s);
              user = user_findUnique db uid
          in if length ms < 5
             then (Json (NotEnoughData
                           ''Not enough data yet. Log at least 5 meals to get insights.'' []),
                   [])
             else
               let request = insights_request user summaries
               in ((case openai request of
                      Throws \<Rightarrow> insights_failed
                    | Choices [] \<Rightarrow> insights_failed
                    | Choices (None # _) \<Rightarrow> insights_failed
                    | Choices (Some responseText # _) \<Rightarrow>
                        if responseText = [] then insights_failed
                        else (case JSON_parse responseText of
                                None \<Rightarrow> insights_failed
                              | Some j \<Rightarrow> Json (Generated j))),
                   [request]))"

section \<open>The daily summary against the meals of the day\<close>

text \<open>
  The meals of a user whose timestamp falls on the local day that starts at \<open>d\<close>, the
  sum of one macro over them, and the statement that the stored summary of that day
  reflects them. A day without a summary row is read as zero totals, as the daily route
  does.
\<close>

definition meals_on :: "int \<Rightarrow> store \<Rightarrow> string \<Rightarrow> int \<Rightarrow> meal list" where
  "meals_on tz db uid d =
     filter (\<lambda>m. userId m = uid \<and> startOfDay tz (timestamp m) = d) (meals db)"

definition macro_sum :: "(meal \<Rightarrow> rat) \<Rightarrow> meal list \<Rightarrow> rat" where
  "macro_sum f ms = sum_list (map f ms)"

definition summary_totals :: "store \<Rightarrow> string \<Rightarrow> int \<Rightarrow> rat \<times> rat \<times> rat \<times> rat" where
  "summary_totals db uid d =
     (case dailySummary_findUnique db uid d of
        None \<Rightarrow> (0, 0, 0, 0)
      | Some s \<Rightarrow> (totalCalories s, totalProtein s, totalCarbs s, totalFats s))"

definition summary_reflects_meals :: "int \<Rightarrow> store \<Rightarrow> string \<Rightarrow> int \<Rightarrow> bool" where
  "summary_reflects_meals tz db uid d =
     (summary_totals db uid d =
        (macro_sum calories (meals_on tz db uid d), macro_sum protein (meals_on tz db uid d),
         macro_sum carbs (meals_on tz db uid d), macro_sum fats (meals_on tz db uid d)))"

text \<open>
  The filters of \<open>listMeals\<close> in the words of the specification. The calendar day of
  an instant is the number of its local day since the epoch; the day a date parameter
  asks for is the date written in it, or the local day of the instant it names.
\<close>

definition local_day :: "int \<Rightarrow> int \<Rightarrow> int" where
  "local_day tz t = (t + tz) div msPerDay"

fun requested_day :: "int \<Rightarrow> date_string \<Rightarrow> int" where
  "requested_day tz (DateOnly n) = n"
| "requested_day tz (LocalDateTime x) = x div msPerDay"
| "requested_day tz (Instant t) = local_day tz t"

definition matches_filters :: "int \<Rightarrow> string \<Rightarrow> int option \<Rightarrow> string option \<Rightarrow> meal \<Rightarrow> bool" where
  "matches_filters tz uid dy mt m =
     (userId m = uid
      \<and> (case dy of None \<Rightarrow> True | Some n \<Rightarrow> local_day tz (timestamp m) = n)
      \<and> (case mt of None \<Rightarrow> True | Some t \<Rightarrow> mealType m = t))"

section \<open>Example data\<close>

text \<open>
  Three users: one with a target, one without, one whose target is 0. Day \<open>n\<close> of UTC
  starts at \<open>day n\<close>; \<open>hour n h\<close> is the hour \<open>h\<close> of that day. A server on UTC has the
  offset \<open>utc\<close>, a server five hours west of Greenwich (Bogota, Lima) the offset
  \<open>west5\<close>.
\<close>

definition utc :: int where
  "utc = 0"

definition west5 :: int where
  "west5 = - 5 * 3600000"

definition alice :: user where
  "alice = \<lparr>user_id = ''alice'', goal = ''lose'', activityLevel = Some ''moderate'',
            targetCalories = Some 2278\<rparr>"

definition bob :: user where
  "bob = \<lparr>user_id = ''bob'', goal = ''maintain'', activityLevel = None,
          targetCalories = None\<rparr>"

definition carol :: user where
  "carol = \<lparr>user_id = ''carol'', goal = ''maintain'', activityLevel = Some ''light'',
            targetCalories = Some 0\<rparr>"

definition day :: "int \<Rightarrow> int" where
  "day n = n * msPerDay"

definition hour :: "int \<Rightarrow> int \<Rightarrow> int" where
  "hour n h = day n + h * 3600000"

definition no_meals :: store where
  "no_meals = \<lparr>users = [alice, bob, carol], meals = [], dailySummaries = []\<rparr>"

definition rice :: "int option \<Rightarrow> createMeal" where
  "rice ts =
     \<lparr>data_description = ''rice with chicken'', data_mealType = ''lunch'',
      data_timestamp = ts, data_calories = 500, data_protein = 30, data_carbs = 60,
      data_fats = 12, data_fiber = None, data_sugar = None, data_sodium = None\<rparr>"

definition logged :: "string \<Rightarrow> string \<Rightarrow> int \<Rightarrow> rat \<Rightarrow> meal" where
  "logged uid mt ts kcal =
     \<lparr>userId = uid, description = ''meal'', mealType = mt, timestamp = ts,
      calories = kcal, protein = 10, carbs = 20, fats = 5, fiber = None, sugar = None,
      sodium = None\<rparr>"

definition four_meals :: store where
  "four_meals =
     \<lparr>users = [alice, bob, carol],
      meals = [logged ''alice'' ''breakfast'' (hour 14 8) 300,
               logged ''alice'' ''lunch'' (hour 15 12) 600,
               logged ''bob'' ''lunch'' (hour 15 13) 700,
               logged ''alice'' ''dinner'' (hour 15 19) 800,
               logged ''alice'' ''snack'' (hour 13 16) 150],
      dailySummaries = []\<rparr>"


text \<open>
  Alice's meals as a server five hours west of Greenwich stores them: a breakfast at
  08:00 local time on day 14 (15 January 1970), a lunch at 12:00 and a dinner at 18:00
  local time on day 15 (16 January 1970).
\<close>

definition west_breakfast :: meal where
  "west_breakfast = logged ''alice'' ''breakfast'' (hour 14 13) 300"

definition west_lunch :: meal where
  "west_lunch = logged ''alice'' ''lunch'' (hour 15 17) 600"

definition west_dinner :: meal where
  "west_dinner = logged ''alice'' ''dinner'' (hour 15 23) 800"

definition three_meals :: store where
  "three_meals =
     \<lparr>users = [alice, bob, carol],
      meals = [west_breakfast, west_lunch, west_dinner],
      dailySummaries = []\<rparr>"

definition rice_request :: json where
  "rice_request = JObj [(''description'', JStr ''rice with chicken'')]"

section \<open>Properties of the TDEE calculator\<close>

lemma Math_round_nearest: "\<bar>of_int (Math_round x) - x\<bar> \<le> 1 / 2"
  unfolding Math_round_def by linarith

lemma Math_round_of_int [simp]: "Math_round (of_int n) = n"
  unfolding Math_round_def by linarith

lemma calculateTDEE_own_or_unknown:
  assumes "level \<notin> set object_prototype_keys"
  shows "calculateTDEE bmr level =
           Num (of_int (Math_round (bmr *
             (case map_of multipliers level of Some m \<Rightarrow> m | None \<Rightarrow> 1375 / 1000))))"
proof (cases "map_of multipliers level")
  case None
  with assms show ?thesis
    by (simp add: calculateTDEE_def read_prop_def)
next
  case (Some m)
  then have "m \<noteq> 0"
    by (auto simp: multipliers_def split: if_splits)
  with Some show ?thesis
    by (simp add: calculateTDEE_def read_prop_def)
qed

lemma calculateTDEE_scenario: "calculateTDEE (3585 / 2) ''moderate'' = Num 2778"
  by code_simp

lemma calculateTargetCalories_own_or_unknown:
  assumes "gl \<notin> set object_prototype_keys"
  shows "calculateTargetCalories tdee gl =
           Num (of_int (Math_round (tdee +
             (case map_of adjustments gl of Some a \<Rightarrow> a | None \<Rightarrow> 0))))"
proof (cases "map_of adjustments gl")
  case None
  with assms show ?thesis
    by (simp add: calculateTargetCalories_def read_prop_def)
next
  case (Some a)
  then show ?thesis
    by (simp add: calculateTargetCalories_def read_prop_def)
qed

lemma calculateTargetCalories_scenario: "calculateTargetCalories 2778 ''lose'' = Num 2278"
  by code_simp

text \<open>
  C6, as the code has it. \<open>calculateBMR\<close> is the Mifflin-St Jeor formula
  \<open>10 weight + 6.25 height - 5 age\<close> plus \<open>5\<close> for the gender code \<open>male\<close> and minus
  \<open>161\<close> for every other gender string, and the result is not rounded. For a man of
  80 kg, 180 cm and 30 years that is 1780.
\<close>

theorem calculateBMR_formula:
  "calculateBMR w h a g = 10 * w + 625 / 100 * h - 5 * a + (if g = ''male'' then 5 else - 161)
   \<and> calculateBMR 80 180 30 ''male'' = 1780"
  by (simp add: calculateBMR_def)

theorem calculateBMR_formula_witness:
  "calculateBMR 60 165 25 ''female'' = 5381 / 4 \<and> calculateBMR 80 180 30 ''male'' = 1780"
  using calculateBMR_formula [of 60 165 25 "''female''"] by simp

text \<open>
  C6, the scenario as the specification states it: the BMR of a man of 80 kg, 180 cm
  and 30 years is not 1792.5. The sum \<open>800 + 1125 - 150 + 5\<close> is 1780.
\<close>

theorem calculateBMR_scenario_counterexample:
  "calculateBMR 80 180 30 ''male'' \<noteq> 3585 / 2"
  by (simp add: calculateBMR_def)

text \<open>
  C7. \<open>calculateTDEE\<close> is to multiply the BMR by the factor of the activity level, by
  1.375 for any unknown level, and round. The level \<open>constructor\<close> is not a key of the
  multiplier table, so the result should be \<open>round (1792.5 * 1.375) = 2465\<close>. The read
  \<open>multipliers[''constructor'']\<close> finds the inherited constructor function instead,
  the default is skipped, and the result is \<open>NaN\<close>.
\<close>

theorem calculateTDEE_inherited_key:
  "map_of multipliers ''constructor'' = None
   \<and> Math_round (3585 / 2 * (1375 / 1000)) = 2465
   \<and> calculateTDEE (3585 / 2) ''constructor'' = NaN"
  by code_simp

text \<open>
  C8. \<open>calculateTargetCalories\<close> is to add the offset of the goal to the TDEE, 0 for
  any unknown goal, and round. The goal \<open>toString\<close> is not a key of the adjustment
  table, so the result for a TDEE of 2778 should be 2778. The read
  \<open>adjustments[''toString'']\<close> finds the inherited function instead, the default is
  skipped, and the result is \<open>NaN\<close>.
\<close>

theorem calculateTargetCalories_inherited_key:
  "map_of adjustments ''toString'' = None
   \<and> calculateTargetCalories 2778 ''toString'' = NaN"
  by code_simp

section \<open>Properties of the routes\<close>

lemma msPerDay_pos: "0 < msPerDay"
  by (simp add: msPerDay_def)

lemma div_window:
  fixes D :: int
  assumes "0 < D"
  shows "t div D = q \<longleftrightarrow> q * D \<le> t \<and> t < q * D + D"
proof
  assume "t div D = q"
  moreover have "t = D * (t div D) + t mod D" by simp
  moreover have "0 \<le> t mod D" "t mod D < D" using assms by simp_all
  ultimately show "q * D \<le> t \<and> t < q * D + D"
    by (metis add.commute add_le_cancel_left add_less_cancel_left mult.commute add_0_right)
next
  assume h: "q * D \<le> t \<and> t < q * D + D"
  show "t div D = q"
  proof (rule int_div_pos_eq)
    show "t = D * q + (t - q * D)" by (simp add: mult.commute)
    show "0 \<le> t - q * D" using h by simp
    show "t - q * D < D" using h by simp
  qed
qed

lemma startOfDay_local_day: "startOfDay tz t = local_day tz t * msPerDay - tz"
proof -
  have "(t + tz) - (t + tz) mod msPerDay = (t + tz) div msPerDay * msPerDay"
    by (simp add: minus_mod_eq_div_mult)
  then show ?thesis
    unfolding startOfDay_def local_day_def by linarith
qed

text \<open>An instant lies between the first and the last millisecond of a local day
  exactly when it falls on that day.\<close>

lemma same_day_window:
  "startOfDay tz d \<le> t \<and> t \<le> endOfDay tz d \<longleftrightarrow> local_day tz t = local_day tz d"
proof -
  have "local_day tz t = local_day tz d
          \<longleftrightarrow> local_day tz d * msPerDay \<le> t + tz
              \<and> t + tz < local_day tz d * msPerDay + msPerDay"
    unfolding local_day_def [of tz t] by (rule div_window [OF msPerDay_pos])
  then show ?thesis
    unfolding endOfDay_def startOfDay_local_day by auto
qed

text \<open>
  The local day of the instant a date parameter is parsed to is the day the parameter
  asks for, unless it is a date without a time on a server west of Greenwich.
\<close>

lemma local_day_Date_parse:
  assumes "(\<forall>n. ds \<noteq> DateOnly n) \<or> (0 \<le> tz \<and> tz < msPerDay)"
  shows "local_day tz (Date_parse tz ds) = requested_day tz ds"
proof (cases ds)
  case (DateOnly n)
  with assms have "0 \<le> tz" "tz < msPerDay" by auto
  then have "(n * msPerDay + tz) div msPerDay = n"
    using div_window [OF msPerDay_pos, of "n * msPerDay + tz" n] by simp
  with DateOnly show ?thesis by (simp add: local_day_def)
next
  case (LocalDateTime x)
  then show ?thesis by (simp add: local_day_def)
next
  case (Instant t)
  then show ?thesis by simp
qed

lemma sorted_desc:
  "sorted (map (\<lambda>m. - timestamp m) ms) \<Longrightarrow> sorted_wrt (\<lambda>a b. timestamp b \<le> timestamp a) ms"
  by (induction ms) auto

text \<open>
  The meal list route without a date, with a date that has a time, or on a server at
  or east of Greenwich: for an authenticated user it answers with exactly that user's
  meals that match the filters, in descending order of timestamp.
\<close>

lemma meals_GET_matching_sorted:
  assumes "session_user_id session = Some uid"
      and "date_q = NoDate \<and> dy = None
           \<or> (\<exists>ds. date_q = ValidDate ds \<and> dy = Some (requested_day tz ds)
                  \<and> ((\<forall>n. ds \<noteq> DateOnly n) \<or> (0 \<le> tz \<and> tz < msPerDay)))"
  shows "\<exists>ms. meals_GET tz session date_q mealType_q db = Json ms
           \<and> mset ms = mset (filter (matches_filters tz uid dy
                                (if mealType_q = Some [] then None else mealType_q)) (meals db))
           \<and> sorted_wrt (\<lambda>a b. timestamp b \<le> timestamp a) ms"
proof -
  define mt where "mt = (if mealType_q = Some [] then None else mealType_q)"
  have mt: "(case mealType_q of None \<Rightarrow> None | Some t \<Rightarrow> if t = [] then None else Some t) = mt"
    by (auto simp: mt_def split: option.splits)
  define ms where "ms = meal_findMany_desc db (matches_filters tz uid dy mt)"
  have "meals_GET tz session date_q mealType_q db = Json ms"
  proof (cases date_q)
    case NoDate
    with assms(2) have "dy = None" by auto
    moreover have "meals_where uid None mt = matches_filters tz uid None mt"
      by (rule ext) (simp add: meals_where_def matches_filters_def)
    ultimately show ?thesis
      using assms(1) NoDate by (simp add: meals_GET_def mt ms_def)
  next
    case InvalidDate
    with assms(2) show ?thesis by auto
  next
    case (ValidDate ds)
    with assms(2) have dy: "dy = Some (requested_day tz ds)"
      and ok: "(\<forall>n. ds \<noteq> DateOnly n) \<or> (0 \<le> tz \<and> tz < msPerDay)"
      by auto
    have "meals_where uid (Some (startOfDay tz (Date_parse tz ds), endOfDay tz (Date_parse tz ds))) mt
            = matches_filters tz uid (Some (requested_day tz ds)) mt"
      by (rule ext)
         (simp add: meals_where_def matches_filters_def same_day_window
            local_day_Date_parse [OF ok])
    with dy ValidDate show ?thesis
      using assms(1) by (simp add: meals_GET_def mt ms_def Let_def)
  qed
  moreover have "mset ms = mset (filter (matches_filters tz uid dy mt) (meals db))"
    by (simp add: ms_def meal_findMany_desc_def)
  moreover have "sorted_wrt (\<lambda>a b. timestamp b \<le> timestamp a) ms"
    by (rule sorted_desc) (simp add: ms_def meal_findMany_desc_def)
  ultimately show ?thesis
    unfolding mt_def by blast
qed

text \<open>
  C9. The meal list route is to answer with exactly the user's meals that match the
  filters. On a server five hours west of Greenwich Alice has a breakfast on
  15 January 1970 and a lunch and a dinner on 16 January (days 14 and 15), on those
  dates in local time and in UTC alike. She asks for the meals of \<open>1970-01-16\<close>. The
  date is read as midnight UTC, which is 19:00 of 15 January on the server, and the
  window is cut to that local day: the route answers with the breakfast of 15 January
  alone, and with neither meal of 16 January.
\<close>

theorem meals_GET_date_only_west:
  "map (local_day west5 \<circ> timestamp) (meals three_meals) = [14, 15, 15]
   \<and> map (local_day utc \<circ> timestamp) (meals three_meals) = [14, 15, 15]
   \<and> filter (matches_filters west5 ''alice'' (Some 15) None) (meals three_meals)
       = [west_lunch, west_dinner]
   \<and> meals_GET west5 (Some ''alice'') (ValidDate (DateOnly 15)) None three_meals
       = Json [west_breakfast]"
  by (simp add: meals_GET_def Let_def meal_findMany_desc_def meals_where_def
        matches_filters_def local_day_def three_meals_def west_breakfast_def west_lunch_def
        west_dinner_def logged_def startOfDay_def endOfDay_def hour_def day_def msPerDay_def
        west5_def utc_def)

text \<open>
  C4. For an authenticated user with fewer than five logged meals overall, the insights
  route answers (with status 200, not an error) the message that there is not enough
  data and an empty list of insights, and sends no request to the text-generation
  provider.
\<close>

theorem insights_GET_not_enough_data:
  assumes "session_user_id session = Some uid"
      and "length (filter (\<lambda>m. userId m = uid) (meals db)) < 5"
  shows "insights_GET tz JSON_parse openai now session db =
           (Json (NotEnoughData ''Not enough data yet. Log at least 5 meals to get insights.'' []), [])"
proof -
  let ?recent = "\<lambda>m. userId m = uid \<and> startOfDay tz (now - 7 * msPerDay) \<le> timestamp m"
  have "filter ?recent (meals db)
          = filter (\<lambda>m. startOfDay tz (now - 7 * msPerDay) \<le> timestamp m)
              (filter (\<lambda>m. userId m = uid) (meals db))"
    by (simp add: conj_commute)
  then have "length (filter ?recent (meals db)) \<le> length (filter (\<lambda>m. userId m = uid) (meals db))"
    by (metis length_filter_le)
  with assms(2) have "length (meal_findMany_asc db ?recent) < 5"
    by (simp add: meal_findMany_asc_def)
  with assms(1) show ?thesis
    by (simp add: insights_GET_def Let_def)
qed

lemma four_meals_of_alice: "length (filter (\<lambda>m. userId m = ''alice'') (meals four_meals)) = 4"
  by (simp add: four_meals_def logged_def)

theorem insights_GET_not_enough_data_witness:
  "length (filter (\<lambda>m. userId m = ''alice'') (meals four_meals)) = 4
   \<and> insights_GET utc (\<lambda>s. None) (\<lambda>r. Choices [Some ''{}'']) (hour 16 10) (Some ''alice'') four_meals =
       (Json (NotEnoughData ''Not enough data yet. Log at least 5 meals to get insights.'' []), [])"
  using insights_GET_not_enough_data [where session = "Some ''alice''" and uid = "''alice''"
      and db = four_meals and tz = utc and JSON_parse = "\<lambda>s. None"
      and openai = "\<lambda>r. Choices [Some ''{}'']" and now = "hour 16 10"] four_meals_of_alice
  by simp

text \<open>
  C5, as the code has it. The analysis route answers every failure with the same
  response, status 500 and the error text \<open>Failed to analyze food\<close>: a request that
  fails validation, an external call that errors or times out, and a reply that is
  absent, empty, not valid JSON or fails schema validation. Only a valid estimate is
  answered otherwise. Every failure is caught and answered, so none ends the process.
\<close>

theorem analyze_POST_estimate:
  "analyze_POST JSON_parse openai body =
     (case estimate_spec JSON_parse openai body of
        Estimate n \<Rightarrow> Json n
      | _ \<Rightarrow> Failure 500 ''Failed to analyze food'')"
  by (auto simp: analyze_POST_def estimate_spec_def analyze_failed_def
           split: option.splits completion.splits list.splits Option.bind_splits)

theorem analyze_POST_estimate_witness:
  "analyze_POST (\<lambda>s. None) (\<lambda>r. Choices [Some ''no json'']) (Some rice_request) =
     Failure 500 ''Failed to analyze food''"
  using analyze_POST_estimate [of "\<lambda>s. None" "\<lambda>r. Choices [Some ''no json'']" "Some rice_request"]
  by (simp add: estimate_spec_def rice_request_def get_member_def)

text \<open>
  C5, as the specification states it: an upstream failure and a malformed reply are
  to be distinguishable to the caller. For the same request, a provider call that
  throws and a reply that is not JSON get the same answer from the route.
\<close>

theorem analyze_POST_same_failure_counterexample:
  "estimate_spec (\<lambda>s. None) (\<lambda>r. Throws) (Some rice_request) = Upstream
   \<and> estimate_spec (\<lambda>s. None) (\<lambda>r. Choices [Some ''no json'']) (Some rice_request) = Malformed
   \<and> analyze_POST (\<lambda>s. None) (\<lambda>r. Throws) (Some rice_request)
       = analyze_POST (\<lambda>s. None) (\<lambda>r. Choices [Some ''no json'']) (Some rice_request)"
  by (simp add: estimate_spec_def analyze_POST_def rice_request_def get_member_def)

text \<open>
  C2, as the code has it. When the meal write of a create request has succeeded and
  the summary update then fails (the read of the user's target inside it, or the upsert
  itself), the route answers with status 500 and the error text
  \<open>Failed to create meal\<close>; the meal stays in the store and no summary row changes.
  The write is neither retried nor rolled back.
\<close>

theorem meals_POST_summary_failure_keeps_meal:
  assumes "session_user_id session = Some uid"
      and "\<not> meal_create_throws flt"
      and "user_findUnique_throws flt \<or> dailySummary_upsert_throws flt"
  shows "meals_POST tz flt now1 now2 session (Some data) db =
           (Failure 500 ''Failed to create meal'',
            db\<lparr>meals := meals db @ [new_meal uid now1 data]\<rparr>)"
  using assms by (auto simp: meals_POST_def Let_def create_failed_def meal_create_def)

theorem meals_POST_summary_failure_keeps_meal_witness:
  "meals_POST utc (no_faults\<lparr>dailySummary_upsert_throws := True\<rparr>) (hour 15 12) (hour 15 12)
     (Some ''alice'') (Some (rice None)) no_meals =
   (Failure 500 ''Failed to create meal'',
    no_meals\<lparr>meals := meals no_meals @ [new_meal ''alice'' (hour 15 12) (rice None)]\<rparr>)"
  using meals_POST_summary_failure_keeps_meal [of "Some ''alice''" "''alice''"
      "no_faults\<lparr>dailySummary_upsert_throws := True\<rparr>" utc "hour 15 12" "hour 15 12"
      "rice None" no_meals]
  by (simp add: no_faults_def)

text \<open>
  C2, as the specification states it: no state is to be reachable in which a stored
  meal is not reflected in the summary of its day. Alice logs a lunch of 500 kcal at
  noon of day 15 into a store without meals, and the upsert of the summary throws: the
  meal is stored, there is still no summary row, and the summary of day 15 no longer
  reflects the meals of that day.
\<close>

theorem meals_POST_orphan_counterexample:
  "summary_reflects_meals utc no_meals ''alice'' (day 15)
   \<and> meals (snd (meals_POST utc (no_faults\<lparr>dailySummary_upsert_throws := True\<rparr>) (hour 15 12)
                    (hour 15 12) (Some ''alice'') (Some (rice None)) no_meals))
       = [new_meal ''alice'' (hour 15 12) (rice None)]
   \<and> dailySummaries (snd (meals_POST utc (no_faults\<lparr>dailySummary_upsert_throws := True\<rparr>) (hour 15 12)
                    (hour 15 12) (Some ''alice'') (Some (rice None)) no_meals))
       = []
   \<and> \<not> summary_reflects_meals utc
         (snd (meals_POST utc (no_faults\<lparr>dailySummary_upsert_throws := True\<rparr>) (hour 15 12)
                 (hour 15 12) (Some ''alice'') (Some (rice None)) no_meals))
         ''alice'' (day 15)"
  by (simp add: meals_POST_def no_faults_def Let_def create_failed_def meal_create_def
        no_meals_def summary_reflects_meals_def summary_totals_def dailySummary_findUnique_def
        meals_on_def macro_sum_def new_meal_def rice_def startOfDay_def hour_def day_def
        msPerDay_def utc_def)





lemma find_snoc:
  "find P (xs @ [x]) = (case find P xs of Some y \<Rightarrow> Some y | None \<Rightarrow> if P x then Some x else None)"
  by (induction xs) auto

lemma find_map_update:
  assumes "\<And>x. P (f x) = P x"
  shows "find P (map (\<lambda>x. if P x then f x else x) xs) = map_option f (find P xs)"
  using assms by (induction xs) auto



text \<open>
  A create request whose meal falls on the day of the second clock read keeps that
  day's summary in step with the day's meals.
\<close>

lemma meals_POST_same_day_reflects:
  assumes "session_user_id session = Some uid"
      and "startOfDay tz (timestamp (new_meal uid now1 data)) = startOfDay tz now2"
      and "summary_reflects_meals tz db uid (startOfDay tz now2)"
  shows "summary_reflects_meals tz
           (snd (meals_POST tz no_faults now1 now2 session (Some data) db)) uid (startOfDay tz now2)"
proof -
  let ?m = "new_meal uid now1 data"
  let ?d = "startOfDay tz now2"
  let ?db1 = "meal_create db ?m"
  let ?P = "\<lambda>s. summary_userId s = uid \<and> date s = ?d"
  have on: "meals_on tz ?db1 uid ?d = meals_on tz db uid ?d @ [?m]"
    using assms(2) by (simp add: meals_on_def meal_create_def new_meal_def)
  have macros: "calories ?m = data_calories data" "protein ?m = data_protein data"
    "carbs ?m = data_carbs data" "fats ?m = data_fats data"
    by (simp_all add: new_meal_def)
  show ?thesis
  proof (cases "find ?P (dailySummaries db)")
    case None
    then show ?thesis
      using assms(1,3) on macros
      by (simp add: meals_POST_def no_faults_def Let_def dailySummary_upsert_def
            dailySummary_findUnique_def summary_reflects_meals_def summary_totals_def
            macro_sum_def find_snoc meal_create_def meals_on_def)
  next
    case (Some s)
    have inc: "\<And>x. ?P (increment_totals data x) = ?P x"
      by (simp add: increment_totals_def)
    have "find ?P (map (\<lambda>x. if ?P x then increment_totals data x else x) (dailySummaries db))
            = Some (increment_totals data s)"
      using find_map_update [of ?P "increment_totals data", OF inc] Some by simp
    then show ?thesis
      using assms(1,3) on macros Some
      by (simp add: meals_POST_def no_faults_def Let_def dailySummary_upsert_def
            dailySummary_findUnique_def summary_reflects_meals_def summary_totals_def
            macro_sum_def meal_create_def meals_on_def increment_totals_def)
  qed
qed

text \<open>
  C1. The summary of a day is to equal the sum of the macros of the day's meals after
  every create, also one whose timestamp is on another day. At noon of day 15 Alice
  logs a lunch of 500 kcal with the timestamp noon of day 10, into a store without
  meals and summaries. The request succeeds; the meal is stored on day 10, and the
  500 kcal are added to the summary of day 15. Afterwards day 10 has a meal and no
  summary, and day 15 has a summary of 500 kcal and no meal.
\<close>

theorem meals_POST_other_day:
  "summary_reflects_meals utc no_meals ''alice'' (day 10)
   \<and> summary_reflects_meals utc no_meals ''alice'' (day 15)
   \<and> meals_POST utc no_faults (hour 15 12) (hour 15 12) (Some ''alice'') (Some (rice (Some (hour 10 12)))) no_meals
       = (Json (new_meal ''alice'' (hour 15 12) (rice (Some (hour 10 12))),
                \<lparr>summary_userId = ''alice'', date = day 15, totalCalories = 500, totalProtein = 30,
                 totalCarbs = 60, totalFats = 12, goalCalories = 2278\<rparr>),
          no_meals\<lparr>meals := [new_meal ''alice'' (hour 15 12) (rice (Some (hour 10 12)))],
                   dailySummaries := [\<lparr>summary_userId = ''alice'', date = day 15, totalCalories = 500,
                      totalProtein = 30, totalCarbs = 60, totalFats = 12, goalCalories = 2278\<rparr>]\<rparr>)
   \<and> startOfDay utc (timestamp (new_meal ''alice'' (hour 15 12) (rice (Some (hour 10 12))))) = day 10
   \<and> \<not> summary_reflects_meals utc
         (snd (meals_POST utc no_faults (hour 15 12) (hour 15 12) (Some ''alice'') (Some (rice (Some (hour 10 12)))) no_meals))
         ''alice'' (day 10)
   \<and> \<not> summary_reflects_meals utc
         (snd (meals_POST utc no_faults (hour 15 12) (hour 15 12) (Some ''alice'') (Some (rice (Some (hour 10 12)))) no_meals))
         ''alice'' (day 15)"
  by (simp add: meals_POST_def no_faults_def Let_def meal_create_def dailySummary_upsert_def
        user_findUnique_def
        no_meals_def summary_reflects_meals_def summary_totals_def dailySummary_findUnique_def
        meals_on_def macro_sum_def new_meal_def rice_def startOfDay_def hour_def day_def
        msPerDay_def utc_def alice_def)

end
